theory Spec2Isabelle
  imports Complex_Main "HOL-Library.AList"
begin

section \<open>Movie retrieval service: values, documents and the document store\<close>

text \<open>
  The service is glue between a web framework, an embedding model and a document
  store. The embedding covers the route functions of \<open>app/routes/movies.py\<close>, the store
  client of \<open>app/database.py\<close> and the embedder of \<open>app/embeddings.py\<close>. The store is a
  list of documents in natural order. The store's vector search is a parameter that
  may raise; the other calls of the store are taken to succeed. A Python float is
  written as the real number it denotes; float arithmetic is a parameter, never
  computed over the reals.
\<close>

subsection \<open>Values\<close>

text \<open>The Python and BSON values a document field or a function argument can hold.\<close>

datatype val =
    VNull
  | VBool bool
  | VInt int
  | VFloat real
  | VStr string
  | VList "val list"

text \<open>Python truthiness, as used by \<open>not text\<close>.\<close>

fun truthy :: "val \<Rightarrow> bool" where
  "truthy VNull = False"
| "truthy (VBool b) = b"
| "truthy (VInt n) = (n \<noteq> 0)"
| "truthy (VFloat x) = (x \<noteq> 0)"
| "truthy (VStr s) = (s \<noteq> [])"
| "truthy (VList xs) = (xs \<noteq> [])"

text \<open>\<open>isinstance(v, str)\<close>.\<close>

fun is_str :: "val \<Rightarrow> bool" where
  "is_str (VStr s) = True"
| "is_str v = False"

subsection \<open>Exceptions\<close>

text \<open>
  An \<open>HTTPException\<close> carries its status code and its detail. The detail of the
  handlers' \<open>f"...: {str(e)}"\<close> is kept as the fixed prefix and the exception \<open>e\<close> that was
  caught.
\<close>

datatype exn =
    InvalidId string
  | TypeError
  | ValueError
  | ZeroDivisionError
  | ValidationError
  | ModelError
  | StoreError
  | HTTPException nat string "exn option"

fun status_code :: "exn \<Rightarrow> nat option" where
  "status_code (HTTPException c d e) = Some c"
| "status_code x = None"

text \<open>
  \<open>try: body except Exception as e: raise HTTPException(status_code=500, detail=f"{prefix}{e}")\<close>.
  \<open>HTTPException\<close> is itself a subclass of \<open>Exception\<close>, so the handler also catches an
  \<open>HTTPException\<close> raised by the body.
\<close>

definition except_500 :: "string \<Rightarrow> exn + 'a \<Rightarrow> exn + 'a" where
  "except_500 prefix body =
     (case body of
        Inl e \<Rightarrow> Inl (HTTPException 500 prefix (Some e))
      | Inr r \<Rightarrow> Inr r)"

subsection \<open>Identifiers\<close>

text \<open>
  The \<open>_id\<close> of a document is an ObjectId or, as the store also allows, a string. An
  ObjectId is held by the text of its bytes, lower-case hexadecimal digits: 24 of them
  for the 12 bytes of a stored identifier.
\<close>

datatype ident = Oid string | SId string

definition is_hex :: "char \<Rightarrow> bool" where
  "is_hex c = (c \<in> set ''0123456789abcdefABCDEF'')"

definition lower_hex :: "char \<Rightarrow> char" where
  "lower_hex c =
     (if c = CHR ''A'' then CHR ''a'' else if c = CHR ''B'' then CHR ''b''
      else if c = CHR ''C'' then CHR ''c'' else if c = CHR ''D'' then CHR ''d''
      else if c = CHR ''E'' then CHR ''e'' else if c = CHR ''F'' then CHR ''f''
      else c)"

text \<open>ASCII whitespace: space, tab, line feed, vertical tab, form feed, carriage return.\<close>

definition is_space :: "char \<Rightarrow> bool" where
  "is_space c = (c \<in> set [CHR '' '', CHR 0x09, CHR 0x0A, CHR 0x0B, CHR 0x0C, CHR 0x0D])"

text \<open>
  \<open>bytes.fromhex(s)\<close>, the bytes written as lower-case hexadecimal digits: whitespace
  before a byte is skipped, and a byte is two adjacent hexadecimal digits; anything else
  raises \<open>ValueError\<close>.
\<close>

fun fromhex :: "string \<Rightarrow> exn + string" where
  "fromhex [] = Inr []"
| "fromhex [c] = (if is_space c then Inr [] else Inl ValueError)"
| "fromhex (c # d # cs) =
     (if is_space c then fromhex (d # cs)
      else if is_hex c \<and> is_hex d then
        (case fromhex cs of
           Inl e \<Rightarrow> Inl e
         | Inr bs \<Rightarrow> Inr (lower_hex c # lower_hex d # bs))
      else Inl ValueError)"

text \<open>
  \<open>bson.ObjectId(s)\<close> for a string \<open>s\<close>: a string of length 24 is parsed with
  \<open>bytes.fromhex\<close>, and a \<open>ValueError\<close> there or any other length raises \<open>InvalidId\<close>.
  Whitespace in the string leaves an identifier of fewer than 12 bytes.
\<close>

definition ObjectId :: "string \<Rightarrow> exn + ident" where
  "ObjectId s =
     (if length s = 24 then
        (case fromhex s of
           Inl e \<Rightarrow> Inl (InvalidId s)
         | Inr h \<Rightarrow> Inr (Oid h))
      else Inl (InvalidId s))"

text \<open>\<open>str(movie['_id'])\<close>.\<close>

fun str_ident :: "ident \<Rightarrow> string" where
  "str_ident (Oid h) = h"
| "str_ident (SId s) = s"

subsection \<open>Documents and the collection\<close>

record document =
  doc_id :: ident
  doc_fields :: "string \<rightharpoonup> val"

text \<open>The loop \<open>movie['_id'] = str(movie['_id'])\<close> applied to one document.\<close>

definition id_to_str :: "document \<Rightarrow> document" where
  "id_to_str d = d\<lparr>doc_id := SId (str_ident (doc_id d))\<rparr>"

text \<open>\<open>collection.find_one({"_id": i})\<close>: the first document with that identifier.\<close>

fun find_one :: "ident \<Rightarrow> document list \<Rightarrow> document option" where
  "find_one i [] = None"
| "find_one i (d # ds) = (if doc_id d = i then Some d else find_one i ds)"

subsection \<open>Fetching one document\<close>

text \<open>
  \<open>get_movie\<close> of \<open>app/routes/movies.py\<close>. The body converts the path parameter, looks
  the document up and raises the 404 itself; all of it runs inside the \<open>try\<close>.
\<close>

definition get_movie_body :: "document list \<Rightarrow> string \<Rightarrow> exn + document" where
  "get_movie_body collection movie_id =
     (case ObjectId movie_id of
        Inl e \<Rightarrow> Inl e
      | Inr oid \<Rightarrow>
          (case find_one oid collection of
             None \<Rightarrow> Inl (HTTPException 404 ''Movie not found'' None)
           | Some movie \<Rightarrow> Inr (id_to_str movie)))"

definition get_movie :: "document list \<Rightarrow> string \<Rightarrow> exn + document" where
  "get_movie collection movie_id =
     except_500 ''Error fetching movie: '' (get_movie_body collection movie_id)"

subsection \<open>Queries\<close>

text \<open>
  A Python dict literal keeps one entry per key: a key written twice keeps its first
  position and its last value.
\<close>

definition py_dict :: "('k \<times> 'v) list \<Rightarrow> ('k \<times> 'v) list" where
  "py_dict kvs = foldl (\<lambda>acc (k, v). AList.update k v acc) [] kvs"

text \<open>The query operators the service uses: \<open>$exists\<close> and \<open>$ne\<close>.\<close>

datatype qop = Exists | Ne

text \<open>
  Equality of the store: a missing field equals only null, and an array field equals a
  value that is the array itself or one of its elements.
\<close>

fun eq_matches :: "val option \<Rightarrow> val \<Rightarrow> bool" where
  "eq_matches None v = (v = VNull)"
| "eq_matches (Some (VList xs)) v = (VList xs = v \<or> v \<in> set xs)"
| "eq_matches (Some x) v = (x = v)"

fun holds_op :: "val option \<Rightarrow> qop \<times> val \<Rightarrow> bool" where
  "holds_op fv (Exists, b) = ((fv \<noteq> None) = truthy b)"
| "holds_op fv (Ne, v) = (\<not> eq_matches fv v)"

type_synonym query = "(string \<times> (qop \<times> val) list) list"

text \<open>A document matches a query when every operator of every field condition holds.\<close>

definition matches :: "query \<Rightarrow> document \<Rightarrow> bool" where
  "matches q d = list_all (\<lambda>(f, conds). list_all (holds_op (doc_fields d f)) conds) q"

text \<open>
  \<open>cursor.skip(n)\<close> and \<open>cursor.limit(n)\<close> of the driver: a value that is not an integer
  raises \<open>TypeError\<close>, a negative skip raises \<open>ValueError\<close>, a limit of 0 means no limit
  and a negative limit counts as its absolute value.
\<close>

fun cursor_skip :: "int option \<Rightarrow> 'a list \<Rightarrow> exn + 'a list" where
  "cursor_skip None xs = Inl TypeError"
| "cursor_skip (Some n) xs = (if n < 0 then Inl ValueError else Inr (drop (nat n) xs))"

fun cursor_limit :: "int option \<Rightarrow> 'a list \<Rightarrow> exn + 'a list" where
  "cursor_limit None xs = Inl TypeError"
| "cursor_limit (Some n) xs = Inr (if n = 0 then xs else take (nat \<bar>n\<bar>) xs)"

text \<open>\<open>list(collection.find(q).skip(s).limit(l))\<close>.\<close>

definition find_skip_limit ::
  "query \<Rightarrow> int option \<Rightarrow> int option \<Rightarrow> document list \<Rightarrow> exn + document list" where
  "find_skip_limit q s l collection =
     (case cursor_skip s (filter (matches q) collection) of
        Inl e \<Rightarrow> Inl e
      | Inr ds \<Rightarrow> cursor_limit l ds)"

definition count_documents :: "query \<Rightarrow> document list \<Rightarrow> nat" where
  "count_documents q collection = length (filter (matches q) collection)"

subsection \<open>Updating one document\<close>

record update_result =
  matched_count :: nat
  modified_count :: nat

text \<open>
  \<open>collection.update_one({"_id": i}, {"$set": {k: v}})\<close>: the first document with the
  identifier is matched; it counts as modified only when the field did not already hold
  the value.
\<close>

fun update_one ::
  "ident \<Rightarrow> string \<Rightarrow> val \<Rightarrow> document list \<Rightarrow> update_result \<times> document list" where
  "update_one i k v [] = (\<lparr>matched_count = 0, modified_count = 0\<rparr>, [])"
| "update_one i k v (d # ds) =
     (if doc_id d = i then
        (if doc_fields d k = Some v
         then (\<lparr>matched_count = 1, modified_count = 0\<rparr>, d # ds)
         else (\<lparr>matched_count = 1, modified_count = 1\<rparr>,
               d\<lparr>doc_fields := (doc_fields d)(k \<mapsto> v)\<rparr> # ds))
      else (case update_one i k v ds of (r, ds') \<Rightarrow> (r, d # ds')))"

text \<open>An embedding as the store holds it: an array of doubles.\<close>

definition vec :: "real list \<Rightarrow> val" where
  "vec xs = VList (map VFloat xs)"

text \<open>
  \<open>MongoDB.update_movie_embedding\<close> of \<open>app/database.py\<close>. Both the conversion of the
  identifier and the update run inside the \<open>try\<close>, whose handler returns \<open>False\<close>.
\<close>

definition update_movie_embedding ::
  "document list \<Rightarrow> string \<Rightarrow> real list \<Rightarrow> bool \<times> document list" where
  "update_movie_embedding collection movie_id embedding =
     (case ObjectId movie_id of
        Inl e \<Rightarrow> (False, collection)
      | Inr oid \<Rightarrow>
          (case update_one oid ''plot_embedding'' (vec embedding) collection of
             (result, collection') \<Rightarrow> (modified_count result > 0, collection')))"

subsection \<open>Settings\<close>

record settings =
  EMBEDDING_MODEL_NAME :: string
  VECTOR_INDEX_NAME :: string
  VECTOR_DIMENSION :: int

subsection \<open>Vector search\<close>

record vectorSearch =
  vs_index :: string
  vs_path :: string
  vs_queryVector :: "real list"
  vs_numCandidates :: int
  vs_limit :: int

text \<open>
  A pipeline stage: \<open>$vectorSearch\<close>, or \<open>$project\<close> with the fields kept beside \<open>_id\<close> and
  the name under which the search score is added.
\<close>

datatype stage = VectorSearch vectorSearch | Project "string list" string

definition vector_search_pipeline :: "settings \<Rightarrow> real list \<Rightarrow> int \<Rightarrow> stage list" where
  "vector_search_pipeline cfg query_embedding limit =
     [VectorSearch \<lparr>vs_index = VECTOR_INDEX_NAME cfg,
                    vs_path = ''plot_embedding'',
                    vs_queryVector = query_embedding,
                    vs_numCandidates = limit * 10,
                    vs_limit = limit\<rparr>,
      Project [''title'', ''plot'', ''year'', ''genres'', ''cast''] ''score'']"

text \<open>
  The nearest-neighbour search runs inside the store. Its ranking is a parameter \<open>ann\<close>:
  for the stage's parameters, the scored candidates, best first, or the error the store
  raises (a missing index, a malformed vector). The stage returns the first \<open>limit\<close> of
  the candidates.
\<close>

type_synonym ranking =
  "vectorSearch \<Rightarrow> document list \<Rightarrow> exn + (document \<times> real) list"

definition project :: "string list \<Rightarrow> string \<Rightarrow> document \<times> real \<Rightarrow> document \<times> real" where
  "project keep score_name h =
     (case h of (d, sc) \<Rightarrow>
        (d\<lparr>doc_fields := (doc_fields d |` set keep)(score_name \<mapsto> VFloat sc)\<rparr>, sc))"

fun run_stage ::
  "ranking \<Rightarrow> stage \<Rightarrow> (document \<times> real) list \<Rightarrow> exn + (document \<times> real) list" where
  "run_stage ann (VectorSearch p) hs =
     (case ann p (map fst hs) of
        Inl e \<Rightarrow> Inl e
      | Inr candidates \<Rightarrow> Inr (take (nat (vs_limit p)) candidates))"
| "run_stage ann (Project keep score_name) hs = Inr (map (project keep score_name) hs)"

fun run_stages ::
  "ranking \<Rightarrow> stage list \<Rightarrow> (document \<times> real) list \<Rightarrow> exn + (document \<times> real) list" where
  "run_stages ann [] hs = Inr hs"
| "run_stages ann (st # sts) hs =
     (case run_stage ann st hs of
        Inl e \<Rightarrow> Inl e
      | Inr hs' \<Rightarrow> run_stages ann sts hs')"

text \<open>\<open>list(collection.aggregate(pipeline))\<close>: the stages run in order; an error ends the run.\<close>

definition aggregate ::
  "ranking \<Rightarrow> stage list \<Rightarrow> document list \<Rightarrow> exn + document list" where
  "aggregate ann pipeline collection =
     (case run_stages ann pipeline (map (\<lambda>d. (d, 0)) collection) of
        Inl e \<Rightarrow> Inl e
      | Inr hs \<Rightarrow> Inr (map fst hs))"

text \<open>
  \<open>MongoDB.vector_search\<close> of \<open>app/database.py\<close>. It has no handler of its own: an error
  of the store passes to the caller.
\<close>

definition vector_search ::
  "settings \<Rightarrow> ranking \<Rightarrow> document list \<Rightarrow> real list \<Rightarrow> int \<Rightarrow> exn + document list" where
  "vector_search cfg ann collection query_embedding limit =
     (case aggregate ann (vector_search_pipeline cfg query_embedding limit) collection of
        Inl e \<Rightarrow> Inl e
      | Inr results \<Rightarrow> Inr (map id_to_str results))"

section \<open>The embedder\<close>

text \<open>
  The loaded sentence-transformers model is a parameter: what \<open>encode\<close> returns for one
  text and for a list of texts, or the exception it raises. Loading it by name can fail.
\<close>

record encoder =
  encode_text :: "string \<Rightarrow> exn + real list"
  encode_batch :: "val list \<Rightarrow> exn + real list list"

type_synonym loader = "string \<Rightarrow> exn + encoder"

text \<open>
  The state of \<open>EmbeddingModel\<close>. The field \<open>encode_calls\<close> is a ghost counter of the calls
  of \<open>self.model.encode\<close> that reached a loaded model.
\<close>

record EmbeddingModel =
  model :: "encoder option"
  model_name :: string
  encode_calls :: nat

definition load_model :: "loader \<Rightarrow> EmbeddingModel \<Rightarrow> bool \<times> EmbeddingModel" where
  "load_model SentenceTransformer em =
     (case SentenceTransformer (model_name em) of
        Inl e \<Rightarrow> (False, em)
      | Inr m \<Rightarrow> (True, em\<lparr>model := Some m\<rparr>))"

text \<open>\<open>if self.model is None: self.load_model()\<close>.\<close>

definition ensure_loaded :: "loader \<Rightarrow> EmbeddingModel \<Rightarrow> EmbeddingModel" where
  "ensure_loaded SentenceTransformer em =
     (if model em = None then snd (load_model SentenceTransformer em) else em)"

text \<open>\<open>[0.0] * settings.VECTOR_DIMENSION\<close>; a negative factor gives the empty list.\<close>

definition zero_vector :: "settings \<Rightarrow> real list" where
  "zero_vector cfg = replicate (nat (VECTOR_DIMENSION cfg)) 0"

text \<open>
  \<open>EmbeddingModel.get_embedding\<close>. With no model loaded, \<open>self.model.encode\<close> raises
  inside the \<open>try\<close>, and the handler turns that into the zero vector like any error
  of the model. The last case is not reached: the guard has returned for every
  value that is not a string.
\<close>

definition get_embedding ::
  "settings \<Rightarrow> loader \<Rightarrow> EmbeddingModel \<Rightarrow> val \<Rightarrow> real list \<times> EmbeddingModel" where
  "get_embedding cfg SentenceTransformer em0 text =
     (let em = ensure_loaded SentenceTransformer em0 in
      if \<not> truthy text \<or> \<not> is_str text then (zero_vector cfg, em)
      else
        (case text of
           VStr s \<Rightarrow>
             (case model em of
                None \<Rightarrow> (zero_vector cfg, em)
              | Some m \<Rightarrow>
                  (case encode_text m s of
                     Inl e \<Rightarrow> (zero_vector cfg, em\<lparr>encode_calls := encode_calls em + 1\<rparr>)
                   | Inr embedding \<Rightarrow> (embedding, em\<lparr>encode_calls := encode_calls em + 1\<rparr>)))
         | _ \<Rightarrow> (zero_vector cfg, em)))"

text \<open>\<open>EmbeddingModel.get_embeddings\<close>.\<close>

definition get_embeddings ::
  "settings \<Rightarrow> loader \<Rightarrow> EmbeddingModel \<Rightarrow> val list \<Rightarrow> real list list \<times> EmbeddingModel" where
  "get_embeddings cfg SentenceTransformer em0 texts =
     (let em = ensure_loaded SentenceTransformer em0 in
      if texts = [] then ([], em)
      else
        (case model em of
           None \<Rightarrow> (replicate (length texts) (zero_vector cfg), em)
         | Some m \<Rightarrow>
             (case encode_batch m texts of
                Inl e \<Rightarrow> (replicate (length texts) (zero_vector cfg),
                          em\<lparr>encode_calls := encode_calls em + 1\<rparr>)
              | Inr embeddings \<Rightarrow> (embeddings, em\<lparr>encode_calls := encode_calls em + 1\<rparr>))))"

section \<open>Retrieval\<close>

record SearchRequest =
  sr_query :: string
  sr_limit :: int

text \<open>The constraints of the request schema: \<open>min_length=1\<close>, \<open>ge=1\<close>, \<open>le=20\<close>.\<close>

definition valid_SearchRequest :: "SearchRequest \<Rightarrow> bool" where
  "valid_SearchRequest req = (1 \<le> length (sr_query req) \<and> 1 \<le> sr_limit req \<and> sr_limit req \<le> 20)"

record SearchResult =
  res_id :: string
  res_title :: string
  res_plot :: "string option"
  res_year :: "int option"
  res_genres :: "string list option"
  res_cast :: "string list option"
  res_score :: real

record SearchResponse =
  resp_query :: string
  resp_results :: "SearchResult list"
  resp_count :: nat

text \<open>
  \<open>SearchResult(**result)\<close> is the validation of the schema library. The route takes it
  as a parameter \<open>mk\<close>: for a result of the store, the validated result or the error
  raised.
\<close>

type_synonym validator = "document \<Rightarrow> exn + SearchResult"

text \<open>
  The comprehension \<open>[SearchResult(**result) for result in results]\<close>: the first result
  that fails validation raises.
\<close>

fun build_results :: "validator \<Rightarrow> document list \<Rightarrow> exn + SearchResult list" where
  "build_results mk [] = Inr []"
| "build_results mk (r # rs) =
     (case mk r of
        Inl e \<Rightarrow> Inl e
      | Inr x \<Rightarrow> (case build_results mk rs of Inl e \<Rightarrow> Inl e | Inr xs \<Rightarrow> Inr (x # xs)))"

text \<open>\<open>semantic_search\<close> of \<open>app/routes/movies.py\<close>.\<close>

definition semantic_search ::
  "settings \<Rightarrow> loader \<Rightarrow> ranking \<Rightarrow> validator \<Rightarrow> EmbeddingModel \<Rightarrow> document list \<Rightarrow>
   SearchRequest \<Rightarrow> (exn + SearchResponse) \<times> EmbeddingModel" where
  "semantic_search cfg SentenceTransformer ann mk em collection request =
     (case get_embedding cfg SentenceTransformer em (VStr (sr_query request)) of
        (query_embedding, em') \<Rightarrow>
          (except_500 ''Search error: ''
             (case vector_search cfg ann collection query_embedding (sr_limit request) of
                Inl e \<Rightarrow> Inl e
              | Inr results \<Rightarrow>
                  (case build_results mk results of
                     Inl e \<Rightarrow> Inl e
                   | Inr search_results \<Rightarrow>
                       Inr \<lparr>resp_query = sr_query request,
                            resp_results = search_results,
                            resp_count = length search_results\<rparr>)),
           em'))"

section \<open>Backfill\<close>

record EmbeddingGenerationRequest =
  gen_limit :: "int option"
  gen_skip :: "int option"

record EmbeddingGenerationResponse =
  success :: bool
  processed :: nat
  message :: string

text \<open>The selection filter, written as the source writes it, duplicate key included.\<close>

definition backfill_query :: query where
  "backfill_query =
     py_dict
       [(''plot'', py_dict [(Exists, VBool True), (Ne, VNull), (Ne, VStr [])]),
        (''plot_embedding'', py_dict [(Exists, VBool False)])]"

text \<open>\<open>movie.get('plot', '')\<close>.\<close>

definition get_plot :: "document \<Rightarrow> val" where
  "get_plot movie = (case doc_fields movie ''plot'' of None \<Rightarrow> VStr [] | Some v \<Rightarrow> v)"

text \<open>Decimal text of a count, for the summary message.\<close>

fun str_nat :: "nat \<Rightarrow> string" where
  "str_nat n =
     (if n < 10 then [char_of (48 + n)]
      else str_nat (n div 10) @ [char_of (48 + n mod 10)])"

declare str_nat.simps [simp del]

text \<open>
  The update loop over \<open>zip(movie_ids, embeddings)\<close>. Beside the count and the
  collection it returns a ghost log: each call of \<open>update_movie_embedding\<close>, in the order
  made, with the value it returned.
\<close>

fun update_loop ::
  "document list \<Rightarrow> (string \<times> real list) list \<Rightarrow> nat \<Rightarrow> (string \<times> bool) list \<Rightarrow>
   nat \<times> document list \<times> (string \<times> bool) list" where
  "update_loop collection [] updated_count calls = (updated_count, collection, calls)"
| "update_loop collection ((movie_id, embedding) # rest) updated_count calls =
     (case update_movie_embedding collection movie_id embedding of
        (ok, collection') \<Rightarrow>
          update_loop collection' rest
            (if ok then updated_count + 1 else updated_count)
            (calls @ [(movie_id, ok)]))"

record backfill_outcome =
  out_response :: "exn + EmbeddingGenerationResponse"
  out_model :: EmbeddingModel
  out_collection :: "document list"
  out_updates :: "(string \<times> bool) list"

text \<open>The documents the backfill selects: \<open>movies\<close> of the source.\<close>

definition backfill_selection ::
  "EmbeddingGenerationRequest \<Rightarrow> document list \<Rightarrow> exn + document list" where
  "backfill_selection request collection =
     find_skip_limit backfill_query (gen_skip request) (gen_limit request) collection"

text \<open>\<open>generate_embeddings\<close> of \<open>app/routes/movies.py\<close>.\<close>

definition generate_embeddings ::
  "settings \<Rightarrow> loader \<Rightarrow> EmbeddingModel \<Rightarrow> document list \<Rightarrow> EmbeddingGenerationRequest \<Rightarrow>
   backfill_outcome" where
  "generate_embeddings cfg SentenceTransformer em collection request =
     (case backfill_selection request collection of
        Inl e \<Rightarrow>
          \<lparr>out_response = except_500 ''Error generating embeddings: '' (Inl e),
           out_model = em, out_collection = collection, out_updates = []\<rparr>
      | Inr movies \<Rightarrow>
          if movies = [] then
            \<lparr>out_response =
               Inr \<lparr>success = True, processed = 0,
                    message = ''No movies found without embeddings''\<rparr>,
             out_model = em, out_collection = collection, out_updates = []\<rparr>
          else
            (let plots = map get_plot movies;
                 movie_ids = map (\<lambda>movie. str_ident (doc_id movie)) movies
             in case get_embeddings cfg SentenceTransformer em plots of
                  (embeddings, em') \<Rightarrow>
                    (case update_loop collection (zip movie_ids embeddings) 0 [] of
                       (updated_count, collection', calls) \<Rightarrow>
                         \<lparr>out_response =
                            Inr \<lparr>success = True, processed = updated_count,
                                 message = ''Successfully generated embeddings for ''
                                   @ str_nat updated_count @ '' movies''\<rparr>,
                          out_model = em', out_collection = collection',
                          out_updates = calls\<rparr>)))"

section \<open>Statistics\<close>

record stats =
  total_movies :: int
  with_embeddings :: int
  without_embeddings :: int
  completion_percentage :: real

text \<open>
  Float arithmetic is a parameter: the float that \<open>a / b\<close> gives for integers with
  \<open>b\<close> not zero, the float product, and \<open>round(x, n)\<close>.
\<close>

record float_ops =
  fl_div :: "int \<Rightarrow> int \<Rightarrow> real"
  fl_mul :: "real \<Rightarrow> real \<Rightarrow> real"
  fl_round :: "real \<Rightarrow> nat \<Rightarrow> real"

text \<open>Python's \<open>/\<close> on integers raises on a zero divisor.\<close>

definition py_truediv :: "float_ops \<Rightarrow> int \<Rightarrow> int \<Rightarrow> exn + real" where
  "py_truediv fl a b = (if b = 0 then Inl ZeroDivisionError else Inr (fl_div fl a b))"

text \<open>\<open>embedding_stats\<close> of \<open>app/routes/movies.py\<close>.\<close>

definition embedding_stats :: "float_ops \<Rightarrow> document list \<Rightarrow> exn + stats" where
  "embedding_stats fl collection =
     except_500 ''Error getting stats: ''
       (let total = int (count_documents (py_dict []) collection);
            movies_with_embeddings =
              int (count_documents
                     (py_dict [(''plot_embedding'', py_dict [(Exists, VBool True)])]) collection);
            movies_without_embeddings = total - movies_with_embeddings
        in case (if total > 0
                 then (case py_truediv fl movies_with_embeddings total of
                         Inl e \<Rightarrow> Inl e
                       | Inr x \<Rightarrow> Inr (fl_round fl (fl_mul fl x 100) 2))
                 else Inr 0) of
             Inl e \<Rightarrow> Inl e
           | Inr pct \<Rightarrow>
               Inr \<lparr>total_movies = total,
                    with_embeddings = movies_with_embeddings,
                    without_embeddings = movies_without_embeddings,
                    completion_percentage = pct\<rparr>)"

section \<open>Reference notions and sample data\<close>

text \<open>\<open>EmbeddingModel.__init__\<close>: no model is loaded at construction.\<close>

definition EmbeddingModel_init :: "settings \<Rightarrow> EmbeddingModel" where
  "EmbeddingModel_init cfg =
     \<lparr>model = None, model_name = EMBEDDING_MODEL_NAME cfg, encode_calls = 0\<rparr>"

text \<open>
  The underlying model errors on a text: after the lazy load there is no model, or its
  \<open>encode\<close> raises.
\<close>

definition encode_raises :: "loader \<Rightarrow> EmbeddingModel \<Rightarrow> string \<Rightarrow> bool" where
  "encode_raises SentenceTransformer em s =
     (case model (ensure_loaded SentenceTransformer em) of
        None \<Rightarrow> True
      | Some m \<Rightarrow> isl (encode_text m s))"

text \<open>A document that has no vector field.\<close>

definition lacks_vector :: "document \<Rightarrow> bool" where
  "lacks_vector d = (doc_fields d ''plot_embedding'' = None)"

text \<open>
  Sequential persistence, as the specification words it: the pairs are persisted one
  after the other in the order given, each against the collection the earlier updates
  left, and each outcome is recorded.
\<close>

definition persist :: "document list \<Rightarrow> string \<times> real list \<Rightarrow> document list" where
  "persist collection p = snd (update_movie_embedding collection (fst p) (snd p))"

fun sequential_updates ::
  "document list \<Rightarrow> (string \<times> real list) list \<Rightarrow> (string \<times> bool) list" where
  "sequential_updates collection [] = []"
| "sequential_updates collection ((movie_id, embedding) # rest) =
     (movie_id, fst (update_movie_embedding collection movie_id embedding))
       # sequential_updates (snd (update_movie_embedding collection movie_id embedding)) rest"

text \<open>Sample configuration, model, ranking, documents and requests.\<close>

definition sample_settings :: settings where
  "sample_settings =
     \<lparr>EMBEDDING_MODEL_NAME = ''sentence-transformers/all-MiniLM-L6-v2'',
      VECTOR_INDEX_NAME = ''movie_embeddings_index'',
      VECTOR_DIMENSION = 2\<rparr>"

definition sample_encoder :: encoder where
  "sample_encoder =
     \<lparr>encode_text = (\<lambda>s. Inr [1, 0]),
      encode_batch =
        (\<lambda>ts. if list_all is_str ts then Inr (map (\<lambda>t. [1, 0]) ts) else Inl TypeError)\<rparr>"

definition sample_loader :: loader where
  "sample_loader name = Inr sample_encoder"

definition failing_loader :: loader where
  "failing_loader name = Inl ModelError"

definition sample_ranking :: ranking where
  "sample_ranking p ds =
     Inr (map (\<lambda>d. (d, 1)) (filter (\<lambda>d. doc_fields d (vs_path p) \<noteq> None) ds))"

definition failing_ranking :: ranking where
  "failing_ranking p ds = Inl StoreError"

text \<open>
  A validator for the examples. It requires \<open>_id\<close>, \<open>title\<close> and \<open>score\<close>, lets the other
  fields be absent or null, and accepts a field only when its value already has the
  declared type (an integer also as a score). The schema library accepts more, since it
  converts between types; the two agree on a result that lacks a required field and on
  one whose fields all have their declared types, which is how the examples use it.
\<close>

fun opt_str :: "val option \<Rightarrow> exn + string option" where
  "opt_str None = Inr None"
| "opt_str (Some VNull) = Inr None"
| "opt_str (Some (VStr s)) = Inr (Some s)"
| "opt_str (Some v) = Inl ValidationError"

fun opt_int :: "val option \<Rightarrow> exn + int option" where
  "opt_int None = Inr None"
| "opt_int (Some VNull) = Inr None"
| "opt_int (Some (VInt n)) = Inr (Some n)"
| "opt_int (Some v) = Inl ValidationError"

fun str_of :: "val \<Rightarrow> string" where
  "str_of (VStr s) = s"
| "str_of v = []"

fun opt_strs :: "val option \<Rightarrow> exn + string list option" where
  "opt_strs None = Inr None"
| "opt_strs (Some VNull) = Inr None"
| "opt_strs (Some (VList xs)) =
     (if list_all is_str xs then Inr (Some (map str_of xs)) else Inl ValidationError)"
| "opt_strs (Some v) = Inl ValidationError"

fun req_float :: "val option \<Rightarrow> exn + real" where
  "req_float (Some (VFloat x)) = Inr x"
| "req_float (Some (VInt n)) = Inr (real_of_int n)"
| "req_float v = Inl ValidationError"

definition typed_validator :: validator where
  "typed_validator r =
     (case (doc_id r, doc_fields r ''title'', req_float (doc_fields r ''score'')) of
        (SId i, Some (VStr t), Inr sc) \<Rightarrow>
          (case (opt_str (doc_fields r ''plot''), opt_int (doc_fields r ''year''),
                 opt_strs (doc_fields r ''genres''), opt_strs (doc_fields r ''cast'')) of
             (Inr p, Inr y, Inr g, Inr c) \<Rightarrow>
               Inr \<lparr>res_id = i, res_title = t, res_plot = p, res_year = y,
                    res_genres = g, res_cast = c, res_score = sc\<rparr>
           | _ \<Rightarrow> Inl ValidationError)
      | _ \<Rightarrow> Inl ValidationError)"

text \<open>Exact arithmetic, standing in for the float operations in the examples.\<close>

definition exact_ops :: float_ops where
  "exact_ops =
     \<lparr>fl_div = (\<lambda>a b. real_of_int a / real_of_int b),
      fl_mul = (\<lambda>x y. x * y),
      fl_round = (\<lambda>x n. real_of_int (round (x * 10 ^ n)) / 10 ^ n)\<rparr>"

definition movie_a :: document where
  "movie_a =
     \<lparr>doc_id = Oid ''507f1f77bcf86cd799439011'',
      doc_fields = [''title'' \<mapsto> VStr ''Alien'', ''plot'' \<mapsto> VStr ''A crew meets a creature'']\<rparr>"

definition movie_b :: document where
  "movie_b =
     \<lparr>doc_id = SId ''tt0062622'',
      doc_fields = [''title'' \<mapsto> VStr ''2001'', ''plot'' \<mapsto> VStr ''A monolith appears'']\<rparr>"

definition movie_null :: document where
  "movie_null =
     \<lparr>doc_id = Oid ''507f191e810c19729de860ea'',
      doc_fields = [''title'' \<mapsto> VStr ''Lost reel'', ''plot'' \<mapsto> VNull]\<rparr>"

definition page :: EmbeddingGenerationRequest where
  "page = \<lparr>gen_limit = Some 100, gen_skip = Some 0\<rparr>"

definition movie_c :: document where
  "movie_c =
     \<lparr>doc_id = Oid ''5f1d7f3a0b9c4e2d8a6b4c21'',
      doc_fields = [''title'' \<mapsto> VStr ''Solaris'', ''plot'' \<mapsto> VStr ''An ocean thinks'',
                    ''plot_embedding'' \<mapsto> vec [1, 0]]\<rparr>"

definition movie_untitled :: document where
  "movie_untitled =
     \<lparr>doc_id = Oid ''5f1d7f3a0b9c4e2d8a6b4c22'',
      doc_fields = [''plot'' \<mapsto> VStr ''Footage without a name'',
                    ''plot_embedding'' \<mapsto> vec [0, 1]]\<rparr>"

definition robots :: SearchRequest where
  "robots = \<lparr>sr_query = ''robots in space'', sr_limit = 3\<rparr>"

definition movie_a_embedded :: document where
  "movie_a_embedded =
     \<lparr>doc_id = Oid ''507f1f77bcf86cd799439011'',
      doc_fields = [''title'' \<mapsto> VStr ''Alien'', ''plot'' \<mapsto> VStr ''A crew meets a creature'',
                    ''plot_embedding'' \<mapsto> vec [1, 0]]\<rparr>"

definition sample_first_run :: backfill_outcome where
  "sample_first_run =
     generate_embeddings sample_settings sample_loader (EmbeddingModel_init sample_settings)
       [movie_a, movie_b] page"

definition loaded_model :: EmbeddingModel where
  "loaded_model =
     \<lparr>model = Some sample_encoder,
      model_name = ''sentence-transformers/all-MiniLM-L6-v2'', encode_calls = 1\<rparr>"

definition movie_null_embedded :: document where
  "movie_null_embedded =
     \<lparr>doc_id = Oid ''507f191e810c19729de860ea'',
      doc_fields = [''title'' \<mapsto> VStr ''Lost reel'', ''plot'' \<mapsto> VNull,
                    ''plot_embedding'' \<mapsto> vec [0, 0]]\<rparr>"

section \<open>Properties\<close>

subsection \<open>Fetching one document\<close>

lemma get_movie_never_404: "get_movie collection movie_id \<noteq> Inl (HTTPException 404 d e)"
  by (simp add: get_movie_def except_500_def split: sum.splits)

lemma get_movie_error_status:
  "get_movie collection movie_id = Inl e \<Longrightarrow> status_code e = Some 500"
  by (auto simp: get_movie_def except_500_def split: sum.splits)

lemma get_movie_malformed_500:
  "get_movie [] ''abc'' =
     Inl (HTTPException 500 ''Error fetching movie: '' (Some (InvalidId ''abc'')))"
  by (simp add: get_movie_def get_movie_body_def except_500_def ObjectId_def)

text \<open>
  A string of length 24 with whitespace between its bytes is accepted, as an identifier
  of fewer than 12 bytes.
\<close>

lemma ObjectId_whitespace:
  "ObjectId ''00 11 22 33 44 55 66 77 '' = Inr (Oid ''0011223344556677'')"
  by (simp add: ObjectId_def is_space_def is_hex_def lower_hex_def)

text \<open>
  C1. The specification says: a well-formed identifier that is not in the store gives
  a not-found outcome (404), and a malformed one a different error. The code raises the
  404 inside
  the \<open>try\<close> whose handler catches every \<open>Exception\<close>: on an empty collection the
  well-formed identifier \<open>507f1f77bcf86cd799439011\<close> ends as a 500 that wraps the 404, the
  same status a malformed identifier gets.
\<close>

theorem get_movie_absent_is_500:
  "get_movie [] ''507f1f77bcf86cd799439011'' =
     Inl (HTTPException 500 ''Error fetching movie: ''
            (Some (HTTPException 404 ''Movie not found'' None)))"
  by (simp add: get_movie_def get_movie_body_def except_500_def ObjectId_def is_space_def is_hex_def
        lower_hex_def)

subsection \<open>The selection filter\<close>

lemma backfill_query_eq:
  "backfill_query =
     [(''plot'', [(Exists, VBool True), (Ne, VStr [])]),
      (''plot_embedding'', [(Exists, VBool False)])]"
  by (simp add: backfill_query_def py_dict_def)

lemma matches_backfill:
  "matches backfill_query d \<longleftrightarrow>
     doc_fields d ''plot'' \<noteq> None \<and> \<not> eq_matches (doc_fields d ''plot'') (VStr [])
     \<and> doc_fields d ''plot_embedding'' = None"
  by (simp add: backfill_query_eq matches_def)

text \<open>
  C2. The specification says: the backfill selects exactly the documents whose text field is present
  and neither null nor empty and whose vector field is absent. The filter writes the
  key \<open>$ne\<close> twice, so the comparison with null is lost: a document whose plot is null and
  that has no vector is selected.
\<close>

theorem backfill_selects_null_plot:
  "doc_fields movie_null ''plot'' = Some VNull
   \<and> backfill_selection page [movie_null] = Inr [movie_null]"
  by (simp add: backfill_selection_def find_skip_limit_def page_def matches_backfill
        movie_null_def)

lemma null_plot_gets_zero_vector:
  "fst (get_embeddings sample_settings sample_loader (EmbeddingModel_init sample_settings)
          (map get_plot [movie_null])) = [[0, 0]]
   \<and> update_movie_embedding [movie_null] (str_ident (doc_id movie_null)) [0, 0]
       = (True, [movie_null_embedded])"
  by (simp add: get_embeddings_def ensure_loaded_def load_model_def sample_loader_def
        EmbeddingModel_init_def sample_settings_def get_plot_def movie_null_def
        sample_encoder_def zero_vector_def numeral_2_eq_2
        update_movie_embedding_def ObjectId_def is_space_def is_hex_def lower_hex_def movie_null_embedded_def)

subsection \<open>The embedder\<close>

lemma get_embedding_zero:
  assumes "text = VStr [] \<or> \<not> is_str text \<or> (\<exists>s. text = VStr s \<and> encode_raises ld em s)"
  shows "fst (get_embedding cfg ld em text) = zero_vector cfg"
proof (cases "text")
  case (VStr s)
  with assms have "s = [] \<or> encode_raises ld em s" by auto
  then show ?thesis
    by (auto simp: VStr get_embedding_def encode_raises_def Let_def
          split: option.splits sum.splits)
qed (simp_all add: get_embedding_def Let_def)

text \<open>
  C6. For a text that is empty, is not a string, or on which the underlying model
  errors, \<open>get_embedding\<close> returns a vector of the configured dimension whose components
  are all zero. It returns in every case: the function is total and has no error result.
  The configured dimension is taken to be a dimension, that is, not negative.
\<close>

theorem get_embedding_fail_soft:
  assumes "0 \<le> VECTOR_DIMENSION cfg"
    and "text = VStr [] \<or> \<not> is_str text \<or> (\<exists>s. text = VStr s \<and> encode_raises ld em s)"
  shows "int (length (fst (get_embedding cfg ld em text))) = VECTOR_DIMENSION cfg
       \<and> (\<forall>x \<in> set (fst (get_embedding cfg ld em text)). x = 0)"
  using assms(1) by (simp add: get_embedding_zero[OF assms(2)] zero_vector_def)

theorem get_embedding_fail_soft_witness:
  "int (length (fst (get_embedding sample_settings failing_loader
                       (EmbeddingModel_init sample_settings) (VStr ''robots in space'')))) = 2
   \<and> fst (get_embedding sample_settings sample_loader
             (EmbeddingModel_init sample_settings) VNull) = [0, 0]
   \<and> fst (get_embedding sample_settings sample_loader
             (EmbeddingModel_init sample_settings) (VStr [])) = [0, 0]"
proof -
  have dim: "0 \<le> VECTOR_DIMENSION sample_settings"
    by (simp add: sample_settings_def)
  have raises: "VStr ''robots in space'' = VStr [] \<or> \<not> is_str (VStr ''robots in space'')
      \<or> (\<exists>s. VStr ''robots in space'' = VStr s
              \<and> encode_raises failing_loader (EmbeddingModel_init sample_settings) s)"
    by (simp add: encode_raises_def ensure_loaded_def load_model_def failing_loader_def
          EmbeddingModel_init_def)
  have "int (length (fst (get_embedding sample_settings failing_loader
               (EmbeddingModel_init sample_settings) (VStr ''robots in space''))))
        = VECTOR_DIMENSION sample_settings"
    using get_embedding_fail_soft[OF dim raises] by simp
  moreover have "fst (get_embedding sample_settings sample_loader
             (EmbeddingModel_init sample_settings) VNull) = [0, 0]"
    by (simp add: get_embedding_def Let_def zero_vector_def sample_settings_def numeral_2_eq_2)
  moreover have "fst (get_embedding sample_settings sample_loader
             (EmbeddingModel_init sample_settings) (VStr [])) = [0, 0]"
    by (simp add: get_embedding_def Let_def zero_vector_def sample_settings_def numeral_2_eq_2)
  ultimately show ?thesis by (simp add: sample_settings_def)
qed

text \<open>
  C10. \<open>get_embeddings\<close> on the empty list returns the empty list, and the count of
  calls of the model's \<open>encode\<close> is what it was before.
\<close>

theorem get_embeddings_empty:
  "fst (get_embeddings cfg ld em []) = []
   \<and> encode_calls (snd (get_embeddings cfg ld em [])) = encode_calls em"
  by (simp add: get_embeddings_def ensure_loaded_def load_model_def split: sum.splits)

subsection \<open>Updating one document\<close>

lemma find_one_None: "find_one i c = None \<Longrightarrow> \<forall>d \<in> set c. doc_id d \<noteq> i"
  by (induction c) (auto split: if_splits)

lemma update_one_absent:
  "\<forall>d \<in> set c. doc_id d \<noteq> i \<Longrightarrow>
   update_one i k v c = (\<lparr>matched_count = 0, modified_count = 0\<rparr>, c)"
  by (induction c) auto

lemma update_one_unchanged:
  "find_one i c = Some d \<Longrightarrow> doc_fields d k = Some v \<Longrightarrow>
   update_one i k v c = (\<lparr>matched_count = 1, modified_count = 0\<rparr>, c)"
  by (induction c) (auto split: if_splits)

lemma set_field_changes:
  "doc_fields d k \<noteq> Some v \<Longrightarrow> d\<lparr>doc_fields := (doc_fields d)(k \<mapsto> v)\<rparr> \<noteq> d"
proof
  assume ne: "doc_fields d k \<noteq> Some v" and eq: "d\<lparr>doc_fields := (doc_fields d)(k \<mapsto> v)\<rparr> = d"
  from eq have "doc_fields (d\<lparr>doc_fields := (doc_fields d)(k \<mapsto> v)\<rparr>) k = doc_fields d k"
    by simp
  with ne show False by simp
qed

lemma update_one_modified:
  "update_one i k v c = (r, c') \<Longrightarrow> (modified_count r > 0) = (c' \<noteq> c)"
proof (induction c arbitrary: r c')
  case Nil
  then show ?case by auto
next
  case (Cons d ds)
  show ?case
  proof (cases "doc_id d = i")
    case True
    with Cons.prems show ?thesis
      by (auto simp: set_field_changes split: if_splits)
  next
    case False
    obtain r0 ds' where u: "update_one i k v ds = (r0, ds')"
      by (cases "update_one i k v ds")
    with Cons.prems False have "r = r0" "c' = d # ds'" by auto
    with Cons.IH[OF u] show ?thesis by simp
  qed
qed

lemma update_true_iff_changed:
  "fst (update_movie_embedding c i e) = (snd (update_movie_embedding c i e) \<noteq> c)"
proof (cases "ObjectId i")
  case (Inl x)
  then show ?thesis by (simp add: update_movie_embedding_def)
next
  case (Inr oid)
  obtain r c' where u: "update_one oid ''plot_embedding'' (vec e) c = (r, c')"
    by (cases "update_one oid ''plot_embedding'' (vec e) c")
  from update_one_modified[OF u] show ?thesis
    by (simp add: update_movie_embedding_def Inr u)
qed

text \<open>
  C7. \<open>update_movie_embedding\<close> returns a boolean and never an error. It returns \<open>False\<close>,
  leaving the collection as it was, when no document has the identifier, when the
  document already holds the vector, and when the identifier is malformed.
\<close>

theorem update_movie_embedding_false:
  "(ObjectId movie_id = Inr oid \<and> find_one oid collection = None
      \<longrightarrow> update_movie_embedding collection movie_id embedding = (False, collection))
 \<and> (ObjectId movie_id = Inr oid \<and> find_one oid collection = Some d
        \<and> doc_fields d ''plot_embedding'' = Some (vec embedding)
      \<longrightarrow> update_movie_embedding collection movie_id embedding = (False, collection))
 \<and> (\<forall>e. ObjectId movie_id = Inl e
      \<longrightarrow> update_movie_embedding collection movie_id embedding = (False, collection))"
  by (auto simp: update_movie_embedding_def update_one_absent[OF find_one_None]
        update_one_unchanged)

lemma oid_c: "ObjectId ''5f1d7f3a0b9c4e2d8a6b4c21'' = Inr (Oid ''5f1d7f3a0b9c4e2d8a6b4c21'')"
  by (simp add: ObjectId_def is_space_def is_hex_def lower_hex_def)

lemma oid_a: "ObjectId ''507f1f77bcf86cd799439011'' = Inr (Oid ''507f1f77bcf86cd799439011'')"
  by (simp add: ObjectId_def is_space_def is_hex_def lower_hex_def)

theorem update_movie_embedding_false_witness:
  "update_movie_embedding [movie_c] ''507f1f77bcf86cd799439011'' [1, 0] = (False, [movie_c])
   \<and> update_movie_embedding [movie_c] ''5f1d7f3a0b9c4e2d8a6b4c21'' [1, 0] = (False, [movie_c])
   \<and> update_movie_embedding [movie_c] ''abc'' [1, 0] = (False, [movie_c])"
proof -
  have absent: "find_one (Oid ''507f1f77bcf86cd799439011'') [movie_c] = None"
    by (simp add: movie_c_def)
  have present: "find_one (Oid ''5f1d7f3a0b9c4e2d8a6b4c21'') [movie_c] = Some movie_c"
    by (simp add: movie_c_def)
  have same: "doc_fields movie_c ''plot_embedding'' = Some (vec [1, 0])"
    by (simp add: movie_c_def)
  have bad: "ObjectId ''abc'' = Inl (InvalidId ''abc'')"
    by (simp add: ObjectId_def)
  show ?thesis
    using update_movie_embedding_false[where movie_id = "''507f1f77bcf86cd799439011''"
            and collection = "[movie_c]" and embedding = "[1, 0]"]
      update_movie_embedding_false[where movie_id = "''5f1d7f3a0b9c4e2d8a6b4c21''"
            and collection = "[movie_c]" and embedding = "[1, 0]" and d = movie_c]
      update_movie_embedding_false[where movie_id = "''abc''"
            and collection = "[movie_c]" and embedding = "[1, 0]"]
      oid_a oid_c absent present same bad
    by simp
qed

subsection \<open>Statistics\<close>

text \<open>
  C9. \<open>embedding_stats\<close> never faults on the division: whatever the float arithmetic,
  it returns its counts for every collection, and when the total is zero the completion
  percentage is 0.
\<close>

theorem embedding_stats_total:
  "\<exists>st. embedding_stats fl collection = Inr st
       \<and> total_movies st = int (length collection)
       \<and> (total_movies st = 0 \<longrightarrow> completion_percentage st = 0)"
  by (simp add: embedding_stats_def except_500_def count_documents_def py_dict_def
        matches_def py_truediv_def Let_def)

theorem embedding_stats_total_witness:
  "embedding_stats exact_ops [] =
     Inr \<lparr>total_movies = 0, with_embeddings = 0, without_embeddings = 0,
          completion_percentage = 0\<rparr>"
  using embedding_stats_total[of exact_ops "[]"]
  by (auto simp: embedding_stats_def except_500_def count_documents_def)

subsection \<open>Vector search\<close>

lemma run_pipeline:
  "aggregate ann (vector_search_pipeline cfg qv L) c =
     (case ann \<lparr>vs_index = VECTOR_INDEX_NAME cfg, vs_path = ''plot_embedding'',
                 vs_queryVector = qv, vs_numCandidates = L * 10, vs_limit = L\<rparr> c of
        Inl e \<Rightarrow> Inl e
      | Inr candidates \<Rightarrow>
          Inr (map (fst \<circ> project [''title'', ''plot'', ''year'', ''genres'', ''cast''] ''score'')
                 (take (nat L) candidates)))"
  by (simp add: aggregate_def vector_search_pipeline_def comp_def split: sum.splits)

lemma vector_search_run:
  "vector_search cfg ann collection query_embedding L =
     (case ann \<lparr>vs_index = VECTOR_INDEX_NAME cfg, vs_path = ''plot_embedding'',
                 vs_queryVector = query_embedding, vs_numCandidates = L * 10,
                 vs_limit = L\<rparr> collection of
        Inl e \<Rightarrow> Inl e
      | Inr candidates \<Rightarrow>
          Inr (map (id_to_str \<circ> fst
                      \<circ> project [''title'', ''plot'', ''year'', ''genres'', ''cast''] ''score'')
                 (take (nat L) candidates)))"
  by (simp add: vector_search_def run_pipeline split: sum.splits)

text \<open>
  C5. For a limit \<open>L\<close> from 1 to 20, \<open>vector_search\<close> asks the store's search for
  \<open>L * 10\<close> candidates with the stage limit \<open>L\<close>, both fixed by \<open>L\<close> alone; an error of
  the store is passed on, and otherwise the first \<open>L\<close> candidates are returned, so at
  most \<open>L\<close> results.
\<close>

theorem vector_search_overfetch:
  assumes "1 \<le> L" and "L \<le> 20"
  shows "vector_search cfg ann collection query_embedding L =
           (case ann \<lparr>vs_index = VECTOR_INDEX_NAME cfg, vs_path = ''plot_embedding'',
                       vs_queryVector = query_embedding, vs_numCandidates = L * 10,
                       vs_limit = L\<rparr> collection of
              Inl e \<Rightarrow> Inl e
            | Inr candidates \<Rightarrow>
                Inr (map (id_to_str \<circ> fst
                            \<circ> project [''title'', ''plot'', ''year'', ''genres'', ''cast'']
                                ''score'')
                       (take (nat L) candidates)))
       \<and> (\<forall>results. vector_search cfg ann collection query_embedding L = Inr results
             \<longrightarrow> int (length results) \<le> L)"
proof -
  have "int (length results) \<le> L"
    if "vector_search cfg ann collection query_embedding L = Inr results" for results
    using that assms by (auto simp: vector_search_run split: sum.splits)
  then show ?thesis by (simp add: vector_search_run)
qed

theorem vector_search_overfetch_witness:
  "vector_search sample_settings sample_ranking [movie_a, movie_c, movie_untitled] [1, 0] 1
     = Inr [\<lparr>doc_id = SId ''5f1d7f3a0b9c4e2d8a6b4c21'',
              doc_fields = [''title'' \<mapsto> VStr ''Solaris'', ''plot'' \<mapsto> VStr ''An ocean thinks'',
                            ''score'' \<mapsto> VFloat 1]\<rparr>]"
  using vector_search_overfetch[of 1 sample_settings sample_ranking
          "[movie_a, movie_c, movie_untitled]" "[1, 0]"]
  by (simp add: sample_ranking_def movie_a_def movie_c_def movie_untitled_def project_def
        id_to_str_def)

subsection \<open>Retrieval\<close>

lemma build_results_ok:
  "list_all (\<lambda>r. \<not> isl (mk r)) rs \<Longrightarrow>
   \<exists>xs. build_results mk rs = Inr xs \<and> map Inr xs = map mk rs"
proof (induction rs)
  case Nil
  show ?case by simp
next
  case (Cons r rs)
  then obtain xs where xs: "build_results mk rs = Inr xs" "map Inr xs = map mk rs"
    by auto
  from Cons.prems obtain x where x: "mk r = Inr x"
    by (cases "mk r") auto
  show ?case by (simp add: xs x)
qed

lemma build_results_fail:
  "\<not> list_all (\<lambda>r. \<not> isl (mk r)) rs \<Longrightarrow> \<exists>e. build_results mk rs = Inl e"
  by (induction rs) (auto split: sum.splits)

lemma build_results_Inr:
  "build_results mk rs = Inr xs \<Longrightarrow> map Inr xs = map mk rs"
proof (induction rs arbitrary: xs)
  case Nil
  then show ?case by simp
next
  case (Cons r rs)
  from Cons.prems obtain x ys where
    "mk r = Inr x" "build_results mk rs = Inr ys" "xs = x # ys"
    by (auto split: sum.splits)
  with Cons.IH[of ys] show ?case by simp
qed

lemma semantic_search_fst:
  "fst (semantic_search cfg ld ann mk em collection request) =
     except_500 ''Search error: ''
       (case vector_search cfg ann collection
               (fst (get_embedding cfg ld em (VStr (sr_query request)))) (sr_limit request) of
          Inl e \<Rightarrow> Inl e
        | Inr results \<Rightarrow>
            (case build_results mk results of
               Inl e \<Rightarrow> Inl e
             | Inr search_results \<Rightarrow>
                 Inr \<lparr>resp_query = sr_query request,
                      resp_results = search_results,
                      resp_count = length search_results\<rparr>))"
  by (simp add: semantic_search_def split: prod.splits)

text \<open>
  The outcomes of the route: a response exactly when the store's search succeeds and
  every result passes validation, and a 500 otherwise.
\<close>

lemma semantic_search_outcome:
  assumes "found = vector_search cfg ann collection
             (fst (get_embedding cfg ld em (VStr (sr_query request)))) (sr_limit request)"
    and "outcome = fst (semantic_search cfg ld ann mk em collection request)"
  shows "(\<exists>resp. outcome = Inr resp) =
           (\<exists>results. found = Inr results \<and> list_all (\<lambda>r. \<not> isl (mk r)) results)"
    and "(\<forall>resp. outcome \<noteq> Inr resp) \<Longrightarrow>
           \<exists>e. outcome = Inl (HTTPException 500 ''Search error: '' (Some e))"
proof -
  have out: "outcome = except_500 ''Search error: ''
       (case found of
          Inl e \<Rightarrow> Inl e
        | Inr results \<Rightarrow>
            (case build_results mk results of
               Inl e \<Rightarrow> Inl e
             | Inr search_results \<Rightarrow>
                 Inr \<lparr>resp_query = sr_query request,
                      resp_results = search_results,
                      resp_count = length search_results\<rparr>))"
    unfolding assms by (rule semantic_search_fst)
  show "(\<exists>resp. outcome = Inr resp) =
           (\<exists>results. found = Inr results \<and> list_all (\<lambda>r. \<not> isl (mk r)) results)"
  proof (cases found)
    case (Inl e)
    then show ?thesis by (simp add: out except_500_def)
  next
    case (Inr results)
    show ?thesis
    proof (cases "list_all (\<lambda>r. \<not> isl (mk r)) results")
      case True
      from build_results_ok[OF True] obtain xs where "build_results mk results = Inr xs"
        by blast
      with True Inr show ?thesis by (simp add: out except_500_def)
    next
      case False
      from build_results_fail[OF False] obtain e where "build_results mk results = Inl e"
        by blast
      with False Inr show ?thesis by (simp add: out except_500_def)
    qed
  qed
  show "\<exists>e. outcome = Inl (HTTPException 500 ''Search error: '' (Some e))"
    if "\<forall>resp. outcome \<noteq> Inr resp"
    using that by (auto simp: out except_500_def split: sum.splits)
qed

text \<open>
  C8. For every valid request, the response that \<open>semantic_search\<close> returns has a count
  equal to the length of its results, holds the store's results in the store's order,
  each as validated, and echoes the query.
\<close>

theorem semantic_search_shape:
  assumes "valid_SearchRequest request"
    and "fst (semantic_search cfg ld ann mk em collection request) = Inr resp"
  shows "resp_count resp = length (resp_results resp)
       \<and> resp_query resp = sr_query request
       \<and> (\<exists>results.
            vector_search cfg ann collection
              (fst (get_embedding cfg ld em (VStr (sr_query request)))) (sr_limit request)
              = Inr results
            \<and> map Inr (resp_results resp) = map mk results)"
  using assms(2)
  by (auto simp: semantic_search_fst except_500_def build_results_Inr split: sum.splits)

lemma emb_robots:
  "get_embedding sample_settings sample_loader (EmbeddingModel_init sample_settings)
     (VStr (sr_query robots))
   = ([1, 0], \<lparr>model = Some sample_encoder,
               model_name = ''sentence-transformers/all-MiniLM-L6-v2'', encode_calls = 1\<rparr>)"
  by (simp add: get_embedding_def ensure_loaded_def load_model_def sample_loader_def
        EmbeddingModel_init_def sample_settings_def sample_encoder_def robots_def Let_def)

lemma search_c:
  "vector_search sample_settings sample_ranking [movie_c] [1, 0] (sr_limit robots)
   = Inr [\<lparr>doc_id = SId ''5f1d7f3a0b9c4e2d8a6b4c21'',
            doc_fields = [''title'' \<mapsto> VStr ''Solaris'', ''plot'' \<mapsto> VStr ''An ocean thinks'',
                          ''score'' \<mapsto> VFloat 1]\<rparr>]"
  by (simp add: vector_search_run sample_ranking_def movie_c_def project_def id_to_str_def
        robots_def)

lemma search_c_response:
  "fst (semantic_search sample_settings sample_loader sample_ranking typed_validator
          (EmbeddingModel_init sample_settings) [movie_c] robots)
   = Inr \<lparr>resp_query = ''robots in space'',
          resp_results =
            [\<lparr>res_id = ''5f1d7f3a0b9c4e2d8a6b4c21'', res_title = ''Solaris'',
              res_plot = Some ''An ocean thinks'', res_year = None, res_genres = None,
              res_cast = None, res_score = 1\<rparr>],
          resp_count = 1\<rparr>"
proof -
  have "fst (semantic_search sample_settings sample_loader sample_ranking typed_validator
          (EmbeddingModel_init sample_settings) [movie_c] robots)
   = Inr \<lparr>resp_query = sr_query robots,
          resp_results =
            [\<lparr>res_id = ''5f1d7f3a0b9c4e2d8a6b4c21'', res_title = ''Solaris'',
              res_plot = Some ''An ocean thinks'', res_year = None, res_genres = None,
              res_cast = None, res_score = 1\<rparr>],
          resp_count = 1\<rparr>"
    by (simp add: semantic_search_def emb_robots search_c typed_validator_def except_500_def)
  then show ?thesis by (simp add: robots_def)
qed

theorem semantic_search_shape_witness:
  "valid_SearchRequest robots
   \<and> fst (semantic_search sample_settings sample_loader sample_ranking typed_validator
            (EmbeddingModel_init sample_settings) [movie_c] robots)
     = Inr \<lparr>resp_query = ''robots in space'',
            resp_results =
              [\<lparr>res_id = ''5f1d7f3a0b9c4e2d8a6b4c21'', res_title = ''Solaris'',
                res_plot = Some ''An ocean thinks'', res_year = None, res_genres = None,
                res_cast = None, res_score = 1\<rparr>],
            resp_count = 1\<rparr>
   \<and> resp_count
         \<lparr>resp_query = ''robots in space'',
          resp_results =
            [\<lparr>res_id = ''5f1d7f3a0b9c4e2d8a6b4c21'', res_title = ''Solaris'',
              res_plot = Some ''An ocean thinks'', res_year = None, res_genres = None,
              res_cast = None, res_score = 1\<rparr>],
          resp_count = 1\<rparr>
       = length [\<lparr>res_id = ''5f1d7f3a0b9c4e2d8a6b4c21'', res_title = ''Solaris'',
                  res_plot = Some ''An ocean thinks'', res_year = None, res_genres = None,
                  res_cast = None, res_score = 1\<rparr>]"
proof -
  have valid: "valid_SearchRequest robots"
    by (simp add: valid_SearchRequest_def robots_def)
  from semantic_search_shape[OF valid search_c_response] valid search_c_response
  show ?thesis by simp
qed

text \<open>
  The failed outcomes: a stored document with a vector and no title is returned by the
  search and rejected by the result schema, and an error of the store's search reaches
  the handler; the route answers 500 in both cases.
\<close>

lemma search_untitled:
  "vector_search sample_settings sample_ranking [movie_untitled] [1, 0] (sr_limit robots)
   = Inr [\<lparr>doc_id = SId ''5f1d7f3a0b9c4e2d8a6b4c22'',
            doc_fields = [''plot'' \<mapsto> VStr ''Footage without a name'',
                          ''score'' \<mapsto> VFloat 1]\<rparr>]"
  by (simp add: vector_search_run sample_ranking_def movie_untitled_def project_def
        id_to_str_def robots_def)

lemma semantic_search_untitled_500:
  "fst (semantic_search sample_settings sample_loader sample_ranking typed_validator
          (EmbeddingModel_init sample_settings) [movie_untitled] robots)
   = Inl (HTTPException 500 ''Search error: '' (Some ValidationError))"
  by (simp add: semantic_search_def emb_robots search_untitled typed_validator_def
        except_500_def)

lemma semantic_search_store_error_500:
  "fst (semantic_search cfg ld failing_ranking mk em collection request)
   = Inl (HTTPException 500 ''Search error: '' (Some StoreError))"
  by (simp add: semantic_search_def vector_search_run failing_ranking_def except_500_def
        split: prod.splits)

subsection \<open>Backfill\<close>

lemma update_loop_run:
  "update_loop c ps n l =
     (n + length (filter snd (sequential_updates c ps)), foldl persist c ps,
      l @ sequential_updates c ps)"
proof (induction ps arbitrary: c n l)
  case Nil
  show ?case by simp
next
  case (Cons p ps)
  obtain i e where p: "p = (i, e)" by (cases p)
  obtain ok c' where u: "update_movie_embedding c i e = (ok, c')"
    by (cases "update_movie_embedding c i e")
  show ?case
    by (simp add: p u Cons.IH persist_def)
qed

lemma sequential_updates_ids: "map fst (sequential_updates c ps) = map fst ps"
  by (induction ps arbitrary: c) auto

lemma length_sequential_updates: "length (sequential_updates c ps) = length ps"
  by (induction ps arbitrary: c) auto

lemma selection_form:
  assumes "backfill_selection req c = Inr movies"
  shows "\<exists>s l. movies = (if l = 0 then drop s (filter (matches backfill_query) c)
                    else take l (drop s (filter (matches backfill_query) c)))"
proof -
  obtain s l where sl: "gen_skip req = Some s" "gen_limit req = Some l"
    using assms
    by (cases "gen_skip req"; cases "gen_limit req")
       (auto simp: backfill_selection_def find_skip_limit_def split: sum.splits if_splits)
  have "movies = (if nat \<bar>l\<bar> = 0 then drop (nat s) (filter (matches backfill_query) c)
                    else take (nat \<bar>l\<bar>) (drop (nat s) (filter (matches backfill_query) c)))"
    using assms sl by (auto simp: backfill_selection_def find_skip_limit_def split: if_splits)
  then show ?thesis by blast
qed

lemma selection_length:
  assumes "backfill_selection req c = Inr movies"
  shows "length movies \<le> length (filter (matches backfill_query) c)"
proof -
  from selection_form[OF assms] obtain s l where
    m: "movies = (if l = 0 then drop s (filter (matches backfill_query) c)
                    else take l (drop s (filter (matches backfill_query) c)))" by blast
  show ?thesis unfolding m by (simp add: min.coboundedI1)
qed

lemma selection_subset:
  assumes "backfill_selection req c = Inr movies"
  shows "set movies \<subseteq> set (filter (matches backfill_query) c)"
proof -
  from selection_form[OF assms] obtain s l where
    m: "movies = (if l = 0 then drop s (filter (matches backfill_query) c)
                    else take l (drop s (filter (matches backfill_query) c)))" by blast
  have "set (take l (drop s xs)) \<subseteq> set xs" and "set (drop s xs) \<subseteq> set xs"
    for xs :: "document list"
    using set_take_subset[of l "drop s xs"] set_drop_subset[of s xs] by blast+
  from this[of "filter (matches backfill_query) c"] show ?thesis
    unfolding m by (simp del: set_filter)
qed

lemma filter_length_mono:
  "(\<And>x. x \<in> set xs \<Longrightarrow> P x \<Longrightarrow> Q x) \<Longrightarrow> length (filter P xs) \<le> length (filter Q xs)"
  by (induction xs) auto

lemma generate_embeddings_nonempty:
  assumes "backfill_selection req c = Inr movies" and "movies \<noteq> []"
    and "ps = zip (map (\<lambda>movie. str_ident (doc_id movie)) movies)
                  (fst (get_embeddings cfg ld em (map get_plot movies)))"
  shows "generate_embeddings cfg ld em c req =
     \<lparr>out_response = Inr \<lparr>success = True,
                           processed = length (filter snd (sequential_updates c ps)),
                           message = ''Successfully generated embeddings for ''
                                   @ str_nat (length (filter snd (sequential_updates c ps)))
                                   @ '' movies''\<rparr>,
      out_model = snd (get_embeddings cfg ld em (map get_plot movies)),
      out_collection = foldl persist c ps,
      out_updates = sequential_updates c ps\<rparr>"
  using assms
  by (simp add: generate_embeddings_def update_loop_run Let_def split: prod.splits)

lemma generate_embeddings_empty:
  assumes "backfill_selection req c = Inr []"
  shows "generate_embeddings cfg ld em c req =
     \<lparr>out_response = Inr \<lparr>success = True, processed = 0,
                           message = ''No movies found without embeddings''\<rparr>,
      out_model = em, out_collection = c, out_updates = []\<rparr>"
  using assms by (simp add: generate_embeddings_def)

lemma generate_embeddings_error:
  assumes "backfill_selection req c = Inl e"
  shows "out_response (generate_embeddings cfg ld em c req)
         = Inl (HTTPException 500 ''Error generating embeddings: '' (Some e))"
  using assms by (simp add: generate_embeddings_def except_500_def)


lemma processed_bound:
  assumes "out_response (generate_embeddings cfg ld em c req) = Inr r"
  shows "processed r \<le> length (filter lacks_vector c)"
proof (cases "backfill_selection req c")
  case (Inl e)
  with assms generate_embeddings_error[OF Inl, of cfg ld em] show ?thesis by simp
next
  case (Inr movies)
  have "length (filter (matches backfill_query) c) \<le> length (filter lacks_vector c)"
    by (rule filter_length_mono) (simp add: matches_backfill lacks_vector_def)
  with selection_length[OF Inr] have len: "length movies \<le> length (filter lacks_vector c)"
    by simp
  show ?thesis
  proof (cases "movies = []")
    case True
    with assms Inr generate_embeddings_empty[of req c cfg ld em] show ?thesis by auto
  next
    case False
    let ?ps = "zip (map (\<lambda>movie. str_ident (doc_id movie)) movies)
                  (fst (get_embeddings cfg ld em (map get_plot movies)))"
    have "processed r = length (filter snd (sequential_updates c ?ps))"
      using assms generate_embeddings_nonempty[OF Inr False refl, of cfg ld em] by auto
    also have "\<dots> \<le> length (sequential_updates c ?ps)" by simp
    also have "\<dots> \<le> length movies" by (simp add: length_sequential_updates)
    finally show ?thesis using len by simp
  qed
qed

lemma update_one_lacks:
  "update_one i ''plot_embedding'' v c = (r, c') \<Longrightarrow>
   length (filter lacks_vector c') \<le> length (filter lacks_vector c)"
proof (induction c arbitrary: r c')
  case Nil
  then show ?case by auto
next
  case (Cons d ds)
  show ?case
  proof (cases "doc_id d = i")
    case True
    with Cons.prems show ?thesis
      by (auto simp: lacks_vector_def split: if_splits)
  next
    case False
    obtain r0 ds' where u: "update_one i ''plot_embedding'' v ds = (r0, ds')"
      by (cases "update_one i ''plot_embedding'' v ds")
    with Cons.prems False have "c' = d # ds'" by auto
    with Cons.IH[OF u] show ?thesis by simp
  qed
qed

lemma persist_lacks:
  "length (filter lacks_vector (persist c p)) \<le> length (filter lacks_vector c)"
proof (cases "ObjectId (fst p)")
  case (Inl x)
  then show ?thesis by (simp add: persist_def update_movie_embedding_def)
next
  case (Inr oid)
  obtain r c' where u: "update_one oid ''plot_embedding'' (vec (snd p)) c = (r, c')"
    by (cases "update_one oid ''plot_embedding'' (vec (snd p)) c")
  from update_one_lacks[OF u] show ?thesis
    by (simp add: persist_def update_movie_embedding_def Inr u)
qed

lemma foldl_persist_lacks:
  "length (filter lacks_vector (foldl persist c ps)) \<le> length (filter lacks_vector c)"
proof (induction ps arbitrary: c)
  case Nil
  show ?case by simp
next
  case (Cons p ps)
  have "length (filter lacks_vector (foldl persist (persist c p) ps))
          \<le> length (filter lacks_vector (persist c p))"
    by (rule Cons.IH)
  also have "\<dots> \<le> length (filter lacks_vector c)" by (rule persist_lacks)
  finally show ?case by simp
qed

lemma backfill_never_unembeds:
  "length (filter lacks_vector (out_collection (generate_embeddings cfg ld em c req)))
     \<le> length (filter lacks_vector c)"
proof (cases "backfill_selection req c")
  case (Inl e)
  then show ?thesis by (simp add: generate_embeddings_def)
next
  case (Inr movies)
  show ?thesis
  proof (cases "movies = []")
    case True
    with Inr show ?thesis by (simp add: generate_embeddings_empty)
  next
    case False
    show ?thesis
      by (simp add: generate_embeddings_nonempty[OF Inr False refl] foldl_persist_lacks)
  qed
qed

text \<open>
  C3. Take any first run of the backfill and then a second run on the model and the
  collection the first one left. The processed count of the second run is at most the
  number of documents that still lack a vector, and every document the second run
  selects lacks a vector: one that has acquired a vector is not selected again.
\<close>

theorem backfill_idempotent:
  assumes "first = generate_embeddings cfg ld em collection request"
    and "out_response (generate_embeddings cfg ld (out_model first) (out_collection first)
                         request') = Inr r"
  shows "processed r \<le> length (filter lacks_vector (out_collection first))
       \<and> (\<forall>movies. backfill_selection request' (out_collection first) = Inr movies
             \<longrightarrow> list_all lacks_vector movies)"
proof -
  have "list_all lacks_vector movies"
    if "backfill_selection request' (out_collection first) = Inr movies" for movies
    using selection_subset[OF that]
    by (auto simp: list_all_iff matches_backfill lacks_vector_def)
  with processed_bound[OF assms(2)] show ?thesis by blast
qed

text \<open>
  C4. For a non-empty selection the updates are made one after the other in selection
  order, each against the collection the earlier ones left: the calls made are the
  sequential updates of the (identifier, vector) pairs, and when the embedder returns a
  vector for each text their identifiers are those of the selection in order. The
  processed count is the number of calls that returned \<open>True\<close>, which by
  \<open>update_true_iff_changed\<close> are the calls that changed the collection, and the success
  flag is \<open>True\<close> whatever the updates returned.
\<close>

theorem backfill_counts_successes:
  assumes "backfill_selection request collection = Inr movies" and "movies \<noteq> []"
    and "embeddings = fst (get_embeddings cfg ld em (map get_plot movies))"
    and "pairs = zip (map (\<lambda>movie. str_ident (doc_id movie)) movies) embeddings"
    and "outcome = generate_embeddings cfg ld em collection request"
  shows "out_updates outcome = sequential_updates collection pairs
       \<and> out_collection outcome = foldl persist collection pairs
       \<and> (\<exists>msg. out_response outcome =
             Inr \<lparr>success = True,
                  processed = length (filter snd (out_updates outcome)),
                  message = msg\<rparr>)
       \<and> (length embeddings = length movies \<longrightarrow>
            map fst (out_updates outcome) = map (\<lambda>movie. str_ident (doc_id movie)) movies)"
  using assms(3,4,5) generate_embeddings_nonempty[OF assms(1,2) refl, of cfg ld em]
  by (simp add: sequential_updates_ids)


lemma sel_ab: "backfill_selection page [movie_a, movie_b] = Inr [movie_a, movie_b]"
  by (simp add: backfill_selection_def find_skip_limit_def page_def matches_backfill
        movie_a_def movie_b_def)

lemma emb_ab:
  "get_embeddings sample_settings sample_loader (EmbeddingModel_init sample_settings)
     (map get_plot [movie_a, movie_b]) = ([[1, 0], [1, 0]], loaded_model)"
  by (simp add: get_embeddings_def ensure_loaded_def load_model_def sample_loader_def
        EmbeddingModel_init_def sample_settings_def get_plot_def movie_a_def movie_b_def
        sample_encoder_def loaded_model_def)

lemma upd_a:
  "update_movie_embedding [movie_a, movie_b] ''507f1f77bcf86cd799439011'' [1, 0]
     = (True, [movie_a_embedded, movie_b])"
  by (simp add: update_movie_embedding_def ObjectId_def is_space_def is_hex_def lower_hex_def
        movie_a_def movie_b_def movie_a_embedded_def)

lemma upd_b:
  "update_movie_embedding [movie_a_embedded, movie_b] ''tt0062622'' [1, 0]
     = (False, [movie_a_embedded, movie_b])"
  by (simp add: update_movie_embedding_def ObjectId_def)

lemma ids_ab:
  "map (\<lambda>movie. str_ident (doc_id movie)) [movie_a, movie_b]
     = [''507f1f77bcf86cd799439011'', ''tt0062622'']"
  by (simp add: movie_a_def movie_b_def)

lemma str_nat_small: "str_nat 0 = ''0''" "str_nat (Suc 0) = ''1''"
  by code_simp+

lemma nonempty_ab: "[movie_a, movie_b] \<noteq> []"
  by simp

lemma pairs_ab:
  "zip (map (\<lambda>movie. str_ident (doc_id movie)) [movie_a, movie_b])
       (fst (get_embeddings sample_settings sample_loader
               (EmbeddingModel_init sample_settings) (map get_plot [movie_a, movie_b])))
   = [(''507f1f77bcf86cd799439011'', [1, 0]), (''tt0062622'', [1, 0])]"
  by (simp only: ids_ab emb_ab fst_conv zip_Cons_Cons zip_Nil)

lemma log_ab:
  "sequential_updates [movie_a, movie_b]
     [(''507f1f77bcf86cd799439011'', [1, 0]), (''tt0062622'', [1, 0])]
   = [(''507f1f77bcf86cd799439011'', True), (''tt0062622'', False)]"
  by (simp add: upd_a upd_b)

lemma final_ab:
  "foldl persist [movie_a, movie_b]
     [(''507f1f77bcf86cd799439011'', [1, 0]), (''tt0062622'', [1, 0])]
   = [movie_a_embedded, movie_b]"
  by (simp add: persist_def upd_a upd_b)

lemma first_run_value:
  "sample_first_run =
     \<lparr>out_response =
        Inr \<lparr>success = True, processed = 1,
             message = ''Successfully generated embeddings for 1 movies''\<rparr>,
      out_model = loaded_model,
      out_collection = [movie_a_embedded, movie_b],
      out_updates = [(''507f1f77bcf86cd799439011'', True), (''tt0062622'', False)]\<rparr>"
  unfolding sample_first_run_def
    generate_embeddings_nonempty[OF sel_ab nonempty_ab pairs_ab[symmetric]] log_ab final_ab emb_ab
  by (simp add: str_nat_small)

theorem backfill_counts_successes_witness:
  "out_response sample_first_run =
     Inr \<lparr>success = True, processed = 1,
          message = ''Successfully generated embeddings for 1 movies''\<rparr>
   \<and> out_updates sample_first_run = [(''507f1f77bcf86cd799439011'', True), (''tt0062622'', False)]
   \<and> out_collection sample_first_run = [movie_a_embedded, movie_b]
   \<and> map fst (out_updates sample_first_run) = [''507f1f77bcf86cd799439011'', ''tt0062622'']"
proof -
  have same_length:
    "length (fst (get_embeddings sample_settings sample_loader
               (EmbeddingModel_init sample_settings) (map get_plot [movie_a, movie_b])))
     = length [movie_a, movie_b]"
    by (simp only: emb_ab fst_conv list.size)
  from backfill_counts_successes[OF sel_ab nonempty_ab refl refl sample_first_run_def]
    same_length
  have "map fst (out_updates sample_first_run)
          = map (\<lambda>movie. str_ident (doc_id movie)) [movie_a, movie_b]"
    by blast
  then show ?thesis
    by (simp add: first_run_value ids_ab[unfolded list.map])
qed

lemma sel_second: "backfill_selection page [movie_a_embedded, movie_b] = Inr [movie_b]"
  by (simp add: backfill_selection_def find_skip_limit_def page_def matches_backfill
        movie_a_embedded_def movie_b_def)

lemma emb_second:
  "get_embeddings sample_settings sample_loader loaded_model (map get_plot [movie_b])
     = ([[1, 0]], loaded_model\<lparr>encode_calls := 2\<rparr>)"
  by (simp add: get_embeddings_def ensure_loaded_def loaded_model_def get_plot_def
        movie_b_def sample_encoder_def)

lemma pairs_second:
  "zip (map (\<lambda>movie. str_ident (doc_id movie)) [movie_b])
       (fst (get_embeddings sample_settings sample_loader loaded_model (map get_plot [movie_b])))
   = [(''tt0062622'', [1, 0])]"
  unfolding emb_second by (simp add: movie_b_def)

lemma second_run_response:
  "out_response (generate_embeddings sample_settings sample_loader
                   (out_model sample_first_run) (out_collection sample_first_run) page)
   = Inr \<lparr>success = True, processed = 0,
          message = ''Successfully generated embeddings for 0 movies''\<rparr>"
proof -
  have ne: "[movie_b] \<noteq> []" by simp
  have log: "sequential_updates [movie_a_embedded, movie_b] [(''tt0062622'', [1, 0])]
               = [(''tt0062622'', False)]"
    by (simp add: upd_b)
  show ?thesis
    unfolding first_run_value backfill_outcome.simps
      generate_embeddings_nonempty[OF sel_second ne pairs_second[symmetric]] log
    by (simp add: str_nat_small)
qed

theorem backfill_idempotent_witness:
  "out_response (generate_embeddings sample_settings sample_loader
                   (out_model sample_first_run) (out_collection sample_first_run) page)
     = Inr \<lparr>success = True, processed = 0,
            message = ''Successfully generated embeddings for 0 movies''\<rparr>
   \<and> length (filter lacks_vector (out_collection sample_first_run)) = 1
   \<and> backfill_selection page (out_collection sample_first_run) = Inr [movie_b]
   \<and> lacks_vector movie_b"
proof -
  have sel: "backfill_selection page (out_collection sample_first_run) = Inr [movie_b]"
    by (simp add: first_run_value sel_second)
  from backfill_idempotent[OF sample_first_run_def second_run_response] sel
  have "list_all lacks_vector [movie_b]" by blast
  moreover have "length (filter lacks_vector (out_collection sample_first_run)) = 1"
    by (simp add: first_run_value lacks_vector_def movie_a_embedded_def movie_b_def)
  ultimately show ?thesis
    using sel second_run_response by simp
qed

end
